theory Spec2Isabelle
  imports
    Complex_Main
    "HOL-Library.Char_ord"
    "HOL-Library.List_Lexorder"
    "HOL-Library.Log_Nat"
    "HOL-Library.Product_Lexorder"
begin

section \<open>Data model\<close>

text \<open>
  The analytics router of the train booking backend (\<^verbatim>\<open>app/routers/analytics.py\<close>)
  loads bookings with one joined SQL query into a pandas DataFrame and derives every
  report from that frame.

  Conventions of the embedding.
  \<^item> A calendar date is its proleptic Gregorian ordinal (Python's \<^verbatim>\<open>date.toordinal()\<close>),
    so \<^verbatim>\<open>d - timedelta(days=n)\<close> is integer subtraction and the order of dates is the
    order of integers.
  \<^item> A Python \<^verbatim>\<open>str\<close> is the list of its UTF-8 bytes. Concatenation is list append, and
    the byte-wise lexicographic order of UTF-8 is the code point order of Python.
  \<^item> \<^verbatim>\<open>date.today()\<close> reads the clock; the model takes \<open>today\<close> as an argument, the
    same for every read within one request.
  \<^item> A \<^verbatim>\<open>date\<close> object is always true in a condition, so \<^verbatim>\<open>not start_date\<close> holds exactly
    when the bound is \<^verbatim>\<open>None\<close>; an optional bound is a \<open>date option\<close>.
  \<^item> \<^verbatim>\<open>strftime('%Y-%m-%d')\<close> is library code; the views that print dates take it as the
    argument \<open>strftime\<close>.
  \<^item> No column of \<^verbatim>\<open>app/models.py\<close> is declared \<^verbatim>\<open>nullable=False\<close>. The class name is
    modelled as it is declared: a \<open>string option\<close>, \<open>None\<close> being SQL \<^verbatim>\<open>NULL\<close>, which pandas
    leaves out of \<^verbatim>\<open>groupby\<close> and \<^verbatim>\<open>value_counts\<close>. The other columns are taken to hold a
    value, as the record types of \<^verbatim>\<open>app/schemas.py\<close> declare them (\<^verbatim>\<open>str\<close>, \<^verbatim>\<open>int\<close>,
    \<^verbatim>\<open>date\<close>); what is proved about amounts, stations and names is proved for frames in
    which they are present.
  \<^item> A float64 is the rational number it denotes. A division or multiplication of
    floats is the exact result rounded to the nearest float64, ties to even
    (\<open>float64\<close> below; overflow and subnormal numbers are out of reach of the values
    here). Amounts and their sums are integers below \<open>2 ^ 53\<close>, which int64 and float64
    hold exactly, so sums are computed over the integers.
\<close>

type_synonym date = int

subsection \<open>Tables (\<^verbatim>\<open>app/models.py\<close>)\<close>

text \<open>Field names carry the alias the SQL query gives the table (\<^verbatim>\<open>b.id\<close> is \<open>b_id\<close>).\<close>

record TrainStation =
  s_id :: int
  s_station_name :: string

record TrainJourney =
  tj_id :: int
  tj_schedule_id :: int
  tj_name :: string

record CarriageClass =
  cc_id :: int
  cc_class_name :: "string option"
  cc_seating_capacity :: int

record BookingStatus =
  bs_id :: int
  bs_name :: string

record Passenger =
  p_id :: int
  p_first_name :: string
  p_last_name :: string
  p_email_address :: string
  p_password :: string

record Booking =
  b_id :: int
  b_passenger_id :: int
  b_status_id :: int
  b_booking_date :: date
  b_starting_station_id :: int
  b_ending_station_id :: int
  b_train_journey_id :: int
  b_ticket_class_id :: int
  b_amount_paid :: int
  b_ticket_no :: int
  b_seat_no :: string

record database =
  booking :: "Booking list"
  train_station :: "TrainStation list"
  carriage_class :: "CarriageClass list"
  booking_status :: "BookingStatus list"
  passenger :: "Passenger list"
  train_journey :: "TrainJourney list"

subsection \<open>Rows of the DataFrame\<close>

text \<open>The thirteen columns of the \<^verbatim>\<open>SELECT\<close> list.\<close>

record sql_row =
  id' :: int
  booking_date :: date
  amount_paid :: int
  ticket_no :: int
  seat_no :: string
  origin_station :: string
  destination_station :: string
  class_name :: "string option"
  status :: string
  first_name :: string
  last_name :: string
  email_address :: string
  journey_name :: string

text \<open>The frame after the two column assignments of \<^verbatim>\<open>get_bookings_df\<close>.\<close>

record df_row = sql_row +
  route :: string
  passenger_name :: string

section \<open>Helper functions\<close>

definition get_date_range :: "date \<Rightarrow> int \<Rightarrow> date \<times> date" where
  "get_date_range today days = (let end_date = today; start_date = end_date - days
                                in (start_date, end_date))"

text \<open>
  The query: six inner joins on the foreign keys of \<open>booking\<close>, then
  \<^verbatim>\<open>WHERE b.booking_date BETWEEN start_date AND end_date\<close>.
\<close>

definition read_sql :: "database \<Rightarrow> date \<Rightarrow> date \<Rightarrow> sql_row list" where
  "read_sql db start_date end_date =
     [\<lparr>id' = b_id b, booking_date = b_booking_date b, amount_paid = b_amount_paid b,
       ticket_no = b_ticket_no b, seat_no = b_seat_no b,
       origin_station = s_station_name s1, destination_station = s_station_name s2,
       class_name = cc_class_name cc, status = bs_name bs,
       first_name = p_first_name p, last_name = p_last_name p,
       email_address = p_email_address p, journey_name = tj_name tj\<rparr>.
      b \<leftarrow> booking db,
      s1 \<leftarrow> train_station db, b_starting_station_id b = s_id s1,
      s2 \<leftarrow> train_station db, b_ending_station_id b = s_id s2,
      cc \<leftarrow> carriage_class db, b_ticket_class_id b = cc_id cc,
      bs \<leftarrow> booking_status db, b_status_id b = bs_id bs,
      p \<leftarrow> passenger db, b_passenger_id b = p_id p,
      tj \<leftarrow> train_journey db, b_train_journey_id b = tj_id tj,
      start_date \<le> b_booking_date b \<and> b_booking_date b \<le> end_date]"

text \<open>
  The separator of the route label, byte for byte as the source file has it between the
  quotes: a space, the bytes \<^verbatim>\<open>C3 A2 E2 80 A0 E2 80 99\<close> and a space.
\<close>

definition route_separator :: string where
  "route_separator = [CHR '' '', CHR 0xC3, CHR 0xA2, CHR 0xE2, CHR 0x80, CHR 0xA0,
                      CHR 0xE2, CHR 0x80, CHR 0x99, CHR '' '']"

definition enrich :: "sql_row \<Rightarrow> df_row" where
  "enrich r = sql_row.extend r
     (df_row.fields (origin_station r @ route_separator @ destination_station r)
                    (first_name r @ '' '' @ last_name r))"

definition get_bookings_df :: "date \<Rightarrow> database \<Rightarrow> date option \<Rightarrow> date option \<Rightarrow> df_row list" where
  "get_bookings_df today db start_date end_date =
     (let (start_date, end_date) =
            (case (start_date, end_date) of
               (Some s, Some e) \<Rightarrow> (s, e)
             | _ \<Rightarrow> get_date_range today 30)
      in map enrich (read_sql db start_date end_date))"

section \<open>The DataFrame operations the views use\<close>

text \<open>
  \<^verbatim>\<open>df.groupby(key)\<close>: the groups in ascending order of their key, each group holding its
  rows in the order of the frame.
\<close>

fun insert_group :: "'k::linorder \<Rightarrow> 'r \<Rightarrow> ('k \<times> 'r list) list \<Rightarrow> ('k \<times> 'r list) list" where
  "insert_group k r [] = [(k, [r])]"
| "insert_group k r ((k', rs) # gs) =
     (if k = k' then (k', rs @ [r]) # gs
      else if k < k' then (k, [r]) # (k', rs) # gs
      else (k', rs) # insert_group k r gs)"

definition groupby :: "('r \<Rightarrow> 'k::linorder) \<Rightarrow> 'r list \<Rightarrow> ('k \<times> 'r list) list" where
  "groupby key df = foldl (\<lambda>gs r. insert_group (key r) r gs) [] df"

text \<open>The aggregations: \<^verbatim>\<open>'id': 'count'\<close>, \<^verbatim>\<open>'amount_paid': 'sum'\<close> and \<^verbatim>\<open>'mean'\<close>.\<close>

definition agg_count :: "'r list \<Rightarrow> int" where
  "agg_count rows = int (length rows)"

definition agg_sum :: "df_row list \<Rightarrow> int" where
  "agg_sum rows = sum_list (map amount_paid rows)"

text \<open>
  Rounding a rational to the nearest float64: the unit in the last place of \<open>x\<close> is
  \<open>2 ^ (e - 52)\<close> for the \<open>e\<close> with \<open>2 ^ e \<le> \<bar>x\<bar> < 2 ^ (e + 1)\<close>, and \<open>x\<close> is rounded to the
  nearest multiple of it, a tie going to the even multiple.
\<close>

definition round_half_even :: "rat \<Rightarrow> int" where
  "round_half_even x =
     (let f = \<lfloor>x\<rfloor>; d = x - of_int f
      in if d < 1 / 2 then f else if 1 / 2 < d then f + 1 else if even f then f else f + 1)"

definition pow2 :: "int \<Rightarrow> rat" where
  "pow2 e = (if 0 \<le> e then 2 ^ nat e else 1 / 2 ^ nat (- e))"

definition binary_exponent :: "rat \<Rightarrow> int" where
  "binary_exponent x =
     (let (p, q) = quotient_of \<bar>x\<bar>; e = bitlen p - bitlen q
      in if pow2 e \<le> \<bar>x\<bar> then e else e - 1)"

definition float64 :: "rat \<Rightarrow> rat" where
  "float64 x =
     (if x = 0 then 0
      else let ulp = pow2 (binary_exponent x - 52)
           in of_int (round_half_even (x / ulp)) * ulp)"

text \<open>Division and multiplication of two float64 numbers.\<close>

definition fdiv :: "rat \<Rightarrow> rat \<Rightarrow> rat" where
  "fdiv x y = float64 (x / y)"

definition fmul :: "rat \<Rightarrow> rat \<Rightarrow> rat" where
  "fmul x y = float64 (x * y)"

text \<open>The mean of a column of integers: the float64 sum divided by the count.\<close>

definition agg_mean :: "df_row list \<Rightarrow> rat" where
  "agg_mean rows = fdiv (of_int (agg_sum rows)) (of_int (agg_count rows))"

text \<open>
  \<^verbatim>\<open>df.groupby(key)\<close> on a column that can be \<^verbatim>\<open>NULL\<close>: with the default \<^verbatim>\<open>dropna=True\<close> the
  rows without a key are in no group.
\<close>

definition groupby_dropna :: "('r \<Rightarrow> 'k::linorder option) \<Rightarrow> 'r list \<Rightarrow> ('k \<times> 'r list) list" where
  "groupby_dropna key df =
     foldl (\<lambda>gs r. case key r of None \<Rightarrow> gs | Some k \<Rightarrow> insert_group k r gs) [] df"

text \<open>
  \<^verbatim>\<open>nlargest(n, col)\<close> with the default \<^verbatim>\<open>keep='first'\<close>: the first \<open>n\<close> rows in descending
  order of the column, rows with equal values staying in the order of the frame.
\<close>

definition nlargest :: "int \<Rightarrow> ('a \<Rightarrow> int) \<Rightarrow> 'a list \<Rightarrow> 'a list" where
  "nlargest n col xs = take (nat n) (sort_key (\<lambda>x. - col x) xs)"

text \<open>\<^verbatim>\<open>value_counts().to_dict()\<close>: the values that occur, each with its number of rows.\<close>

definition value_counts :: "('r \<Rightarrow> 'k) \<Rightarrow> 'r list \<Rightarrow> ('k \<rightharpoonup> int)" where
  "value_counts col df =
     (\<lambda>v. let n = count_list (map col df) v in if n = 0 then None else Some (int n))"

text \<open>On a column that can be \<^verbatim>\<open>NULL\<close>, \<^verbatim>\<open>value_counts\<close> leaves the missing values out.\<close>

definition value_counts_dropna :: "('r \<Rightarrow> 'k option) \<Rightarrow> 'r list \<Rightarrow> ('k \<rightharpoonup> int)" where
  "value_counts_dropna col df =
     (\<lambda>v. let n = count_list (map col df) (Some v) in if n = 0 then None else Some (int n))"

text \<open>
  \<^verbatim>\<open>round(2)\<close> on a column of floats, as numpy computes it: multiply by 100, round to
  the nearest integer (halves to even), divide by 100, each step in float64.
\<close>

definition round2 :: "rat \<Rightarrow> rat" where
  "round2 x = fdiv (of_int (round_half_even (fmul x 100))) 100"

section \<open>Response records (\<^verbatim>\<open>app/schemas.py\<close>)\<close>

record BookingStatsResponse =
  st_total_bookings :: int
  st_total_revenue :: rat
  st_average_booking_value :: rat
  st_bookings_by_status :: "string \<rightharpoonup> int"
  st_bookings_by_class :: "string \<rightharpoonup> int"

text \<open>The dictionaries of the three revenue lists have two keys each; they are pairs here.\<close>

record RevenueStatsResponse =
  rs_total_revenue :: rat
  revenue_by_date :: "(string \<times> int) list"
  revenue_by_class :: "(string \<times> int) list"
  revenue_by_route :: "(string \<times> int) list"

record PopularRouteResponse =
  pr_origin :: string
  pr_destination :: string
  pr_booking_count :: int
  pr_total_revenue :: rat
  pr_average_price :: rat

record DailyBookingTrendResponse =
  dt_date :: string
  dt_booking_count :: int
  dt_revenue :: rat

record ClassDistributionResponse =
  cd_class_name :: string
  cd_booking_count :: int
  cd_revenue :: rat
  cd_percentage :: rat


text \<open>The dictionaries returned by the passenger and journey leaderboards.\<close>

record TopSpender =
  ts_name :: string
  ts_email :: string
  ts_total_bookings :: int
  ts_total_spent :: rat

record JourneyPerformance =
  jp_journey_name :: string
  jp_total_bookings :: int
  jp_total_revenue :: rat
  jp_average_booking_value :: rat

section \<open>The views\<close>

text \<open>
  Each endpoint loads its frame with \<open>get_bookings_df\<close> and computes on it; the
  computation on the frame is the function with the suffix \<open>_df\<close>.
\<close>

subsection \<open>Booking statistics\<close>

definition booking_statistics_df :: "df_row list \<Rightarrow> BookingStatsResponse" where
  "booking_statistics_df df =
     (if df = [] then
        \<lparr>st_total_bookings = 0, st_total_revenue = 0, st_average_booking_value = 0,
         st_bookings_by_status = Map.empty, st_bookings_by_class = Map.empty\<rparr>
      else
        \<lparr>st_total_bookings = int (length df),
         st_total_revenue = of_int (agg_sum df),
         st_average_booking_value = agg_mean df,
         st_bookings_by_status = value_counts status df,
         st_bookings_by_class = value_counts_dropna class_name df\<rparr>)"

definition get_booking_statistics ::
    "date \<Rightarrow> date option \<Rightarrow> date option \<Rightarrow> database \<Rightarrow> BookingStatsResponse" where
  "get_booking_statistics today start_date end_date db =
     booking_statistics_df (get_bookings_df today db start_date end_date)"

subsection \<open>Revenue analytics\<close>

definition revenue_statistics_df :: "(date \<Rightarrow> string) \<Rightarrow> df_row list \<Rightarrow> RevenueStatsResponse" where
  "revenue_statistics_df strftime df =
     (if df = [] then
        \<lparr>rs_total_revenue = 0, revenue_by_date = [], revenue_by_class = [],
         revenue_by_route = []\<rparr>
      else
        let revenue_by_date_list =
              map (\<lambda>(d, rows). (strftime d, agg_sum rows)) (groupby booking_date df);
            revenue_by_class_list =
              map (\<lambda>(c, rows). (c, agg_sum rows)) (groupby_dropna class_name df);
            revenue_by_route_list =
              nlargest 10 snd (map (\<lambda>(r, rows). (r, agg_sum rows)) (groupby route df))
        in \<lparr>rs_total_revenue = of_int (agg_sum df),
            revenue_by_date = revenue_by_date_list,
            revenue_by_class = revenue_by_class_list,
            revenue_by_route = revenue_by_route_list\<rparr>)"

definition get_revenue_statistics ::
    "date \<Rightarrow> (date \<Rightarrow> string) \<Rightarrow> date option \<Rightarrow> date option \<Rightarrow> database \<Rightarrow> RevenueStatsResponse" where
  "get_revenue_statistics today strftime start_date end_date db =
     revenue_statistics_df strftime (get_bookings_df today db start_date end_date)"

subsection \<open>Popular routes\<close>

text \<open>
  \<open>route_stats\<close> is the frame after \<^verbatim>\<open>groupby(...).agg(...).reset_index()\<close> and the renaming
  of its columns: origin, destination, route, booking\_count, total\_revenue,
  average\_price.
\<close>

definition route_stats ::
    "df_row list \<Rightarrow> (string \<times> string \<times> string \<times> int \<times> int \<times> rat) list" where
  "route_stats df =
     map (\<lambda>((origin, destination, route), rows).
            (origin, destination, route, agg_count rows, agg_sum rows, agg_mean rows))
         (groupby (\<lambda>r. (origin_station r, destination_station r, route r)) df)"

definition popular_routes_df :: "int \<Rightarrow> df_row list \<Rightarrow> PopularRouteResponse list" where
  "popular_routes_df limit df =
     (if df = [] then []
      else
        map (\<lambda>(origin, destination, route, booking_count, total_revenue, average_price).
               \<lparr>pr_origin = origin, pr_destination = destination,
                pr_booking_count = booking_count,
                pr_total_revenue = of_int total_revenue,
                pr_average_price = average_price\<rparr>)
            (nlargest limit (\<lambda>(origin, destination, route, booking_count, rest). booking_count)
               (route_stats df)))"

definition get_popular_routes ::
    "date \<Rightarrow> int \<Rightarrow> date option \<Rightarrow> date option \<Rightarrow> database \<Rightarrow> PopularRouteResponse list" where
  "get_popular_routes today limit start_date end_date db =
     popular_routes_df limit (get_bookings_df today db start_date end_date)"

subsection \<open>Daily trends\<close>

definition daily_trends_df :: "(date \<Rightarrow> string) \<Rightarrow> df_row list \<Rightarrow> DailyBookingTrendResponse list" where
  "daily_trends_df strftime df =
     (if df = [] then []
      else
        map (\<lambda>(d, rows).
               \<lparr>dt_date = strftime d, dt_booking_count = agg_count rows,
                dt_revenue = of_int (agg_sum rows)\<rparr>)
            (groupby booking_date df))"


subsection \<open>Class distribution\<close>

text \<open>
  The percentage column: \<^verbatim>\<open>(class_stats['id'] / total_bookings * 100).round(2)\<close>, row by
  row.
\<close>

fun with_percentage :: "int \<Rightarrow> string \<times> int \<times> int \<Rightarrow> string \<times> int \<times> int \<times> rat" where
  "with_percentage total_bookings (c, n, s) =
     (c, n, s, round2 (fmul (fdiv (of_int n) (of_int total_bookings)) 100))"

definition class_distribution_df :: "df_row list \<Rightarrow> ClassDistributionResponse list" where
  "class_distribution_df df =
     (if df = [] then []
      else
        let class_stats =
              map (\<lambda>(c, rows). (c, agg_count rows, agg_sum rows))
                  (groupby_dropna class_name df);
            total_bookings = sum_list (map (\<lambda>(c, n, s). n) class_stats);
            class_stats = map (with_percentage total_bookings) class_stats
        in map (\<lambda>(c, n, s, percentage).
                  \<lparr>cd_class_name = c, cd_booking_count = n, cd_revenue = of_int s,
                   cd_percentage = percentage\<rparr>)
               class_stats)"

definition get_class_distribution ::
    "date \<Rightarrow> date option \<Rightarrow> date option \<Rightarrow> database \<Rightarrow> ClassDistributionResponse list" where
  "get_class_distribution today start_date end_date db =
     class_distribution_df (get_bookings_df today db start_date end_date)"

subsection \<open>Comprehensive dashboard\<close>


subsection \<open>Passenger and journey leaderboards\<close>

definition top_spending_passengers_df :: "int \<Rightarrow> df_row list \<Rightarrow> TopSpender list" where
  "top_spending_passengers_df limit df =
     (if df = [] then []
      else
        map (\<lambda>((name, email), n, s).
               \<lparr>ts_name = name, ts_email = email, ts_total_bookings = n,
                ts_total_spent = of_int s\<rparr>)
            (nlargest limit (\<lambda>(k, n, s). s)
               (map (\<lambda>(k, rows). (k, agg_count rows, agg_sum rows))
                    (groupby (\<lambda>r. (passenger_name r, email_address r)) df))))"

definition get_top_spending_passengers ::
    "date \<Rightarrow> int \<Rightarrow> date option \<Rightarrow> date option \<Rightarrow> database \<Rightarrow> TopSpender list" where
  "get_top_spending_passengers today limit start_date end_date db =
     top_spending_passengers_df limit (get_bookings_df today db start_date end_date)"

definition journey_performance_df :: "int \<Rightarrow> df_row list \<Rightarrow> JourneyPerformance list" where
  "journey_performance_df limit df =
     (if df = [] then []
      else
        map (\<lambda>(name, n, s, m).
               \<lparr>jp_journey_name = name, jp_total_bookings = n,
                jp_total_revenue = of_int s, jp_average_booking_value = m\<rparr>)
            (nlargest limit (\<lambda>(name, n, rest). n)
               (map (\<lambda>(name, rows). (name, agg_count rows, agg_sum rows, agg_mean rows))
                    (groupby journey_name df))))"

definition get_journey_performance ::
    "date \<Rightarrow> int \<Rightarrow> date option \<Rightarrow> date option \<Rightarrow> database \<Rightarrow> JourneyPerformance list" where
  "get_journey_performance today limit start_date end_date db =
     journey_performance_df limit (get_bookings_df today db start_date end_date)"

section \<open>Reference definitions and example data\<close>

text \<open>
  The booking records of a database, as the specification describes them: the
  denormalised rows of the inner join of \<open>booking\<close> with its two stations, its carriage
  class, its status, its passenger and its journey, whatever their date.
\<close>

definition booking_records :: "database \<Rightarrow> sql_row list" where
  "booking_records db =
     [\<lparr>id' = b_id b, booking_date = b_booking_date b, amount_paid = b_amount_paid b,
       ticket_no = b_ticket_no b, seat_no = b_seat_no b,
       origin_station = s_station_name s1, destination_station = s_station_name s2,
       class_name = cc_class_name cc, status = bs_name bs,
       first_name = p_first_name p, last_name = p_last_name p,
       email_address = p_email_address p, journey_name = tj_name tj\<rparr>.
      b \<leftarrow> booking db,
      s1 \<leftarrow> train_station db, b_starting_station_id b = s_id s1,
      s2 \<leftarrow> train_station db, b_ending_station_id b = s_id s2,
      cc \<leftarrow> carriage_class db, b_ticket_class_id b = cc_id cc,
      bs \<leftarrow> booking_status db, b_status_id b = bs_id bs,
      p \<leftarrow> passenger db, b_passenger_id b = p_id p,
      tj \<leftarrow> train_journey db, b_train_journey_id b = tj_id tj]"

text \<open>
  The separator the specification gives for the route label: a space, the arrow U+2192
  (UTF-8 bytes \<^verbatim>\<open>E2 86 92\<close>) and a space.
\<close>

definition spec_route_separator :: string where
  "spec_route_separator = [CHR '' '', CHR 0xE2, CHR 0x86, CHR 0x92, CHR '' '']"

text \<open>
  A small database: 15 March 2024 is day 738960. It holds one booking of that day from
  A to B.
\<close>

definition example_today :: date where
  "example_today = 738960"

definition example_strftime :: "date \<Rightarrow> string" where
  "example_strftime d =
     (if d = 738960 then ''2024-03-15'' else if d = 738959 then ''2024-03-14''
      else ''another day'')"

definition example_db :: database where
  "example_db =
     \<lparr>booking =
        [\<lparr>b_id = 1, b_passenger_id = 1, b_status_id = 1, b_booking_date = 738960,
          b_starting_station_id = 1, b_ending_station_id = 2, b_train_journey_id = 1,
          b_ticket_class_id = 1, b_amount_paid = 100, b_ticket_no = 1001,
          b_seat_no = ''1A''\<rparr>],
      train_station =
        [\<lparr>s_id = 1, s_station_name = ''A''\<rparr>, \<lparr>s_id = 2, s_station_name = ''B''\<rparr>],
      carriage_class =
        [\<lparr>cc_id = 1, cc_class_name = Some ''First'', cc_seating_capacity = 40\<rparr>],
      booking_status = [\<lparr>bs_id = 1, bs_name = ''Confirmed''\<rparr>],
      passenger =
        [\<lparr>p_id = 1, p_first_name = ''Ada'', p_last_name = ''Lovelace'',
          p_email_address = ''ada@example.org'', p_password = ''secret''\<rparr>],
      train_journey = [\<lparr>tj_id = 1, tj_schedule_id = 1, tj_name = ''Morning''\<rparr>]\<rparr>"

text \<open>Frames for the scenarios: a row is given by its id, date, amount, stations and class.\<close>

definition example_row :: "int \<Rightarrow> date \<Rightarrow> int \<Rightarrow> string \<Rightarrow> string \<Rightarrow> string \<Rightarrow> sql_row" where
  "example_row i d amount origin destination cls =
     \<lparr>id' = i, booking_date = d, amount_paid = amount, ticket_no = 1000 + i,
      seat_no = ''1A'', origin_station = origin, destination_station = destination,
      class_name = Some cls, status = ''Confirmed'', first_name = ''Ada'',
      last_name = ''Lovelace'', email_address = ''ada@example.org'',
      journey_name = ''Morning''\<rparr>"


text \<open>
  Nine bookings on three routes: five from A to B, three from B to C, one from C to A;
  four in class First, three in Standard, two in Sleeper.
\<close>

definition three_routes_rows :: "sql_row list" where
  "three_routes_rows =
     [example_row 1 738959 70 ''C'' ''A'' ''First'',
      example_row 2 738959 100 ''A'' ''B'' ''First'',
      example_row 3 738959 40 ''B'' ''C'' ''Standard'',
      example_row 4 738959 120 ''A'' ''B'' ''Sleeper'',
      example_row 5 738960 45 ''B'' ''C'' ''Standard'',
      example_row 6 738960 100 ''A'' ''B'' ''First'',
      example_row 7 738960 40 ''B'' ''C'' ''Standard'',
      example_row 8 738960 125 ''A'' ''B'' ''Sleeper'',
      example_row 9 738960 100 ''A'' ''B'' ''First'']"

text \<open>
  Three bookings, the second in a carriage class whose name is \<^verbatim>\<open>NULL\<close>: 60 in First,
  200 without a class name, 40 in Standard.
\<close>

definition null_class_rows :: "sql_row list" where
  "null_class_rows =
     [example_row 1 738960 60 ''A'' ''B'' ''First'',
      (example_row 2 738960 200 ''A'' ''B'' [])\<lparr>class_name := None\<rparr>,
      example_row 3 738960 40 ''A'' ''B'' ''Standard'']"

text \<open>Seven bookings from A to B whose amounts add up to 29.\<close>

definition seven_bookings_rows :: "sql_row list" where
  "seven_bookings_rows =
     [example_row 1 738960 5 ''A'' ''B'' ''First'',
      example_row 2 738960 4 ''A'' ''B'' ''First'',
      example_row 3 738960 4 ''A'' ''B'' ''First'',
      example_row 4 738960 4 ''A'' ''B'' ''First'',
      example_row 5 738960 4 ''A'' ''B'' ''First'',
      example_row 6 738960 4 ''A'' ''B'' ''First'',
      example_row 7 738960 4 ''A'' ''B'' ''First'']"

text \<open>160 bookings, the first 23 in class First and the other 137 in Standard.\<close>

definition float_rounding_rows :: "sql_row list" where
  "float_rounding_rows =
     map (\<lambda>i. example_row i 738960 100 ''A'' ''B'' (if i \<le> 23 then ''First'' else ''Standard''))
         [1..160]"

section \<open>Grouping: what \<open>groupby\<close> computes\<close>

lemma insert_group_map:
  assumes "sorted ks" and "distinct ks" and "k \<notin> set ks \<Longrightarrow> f k = []"
  shows "insert_group k r (map (\<lambda>k'. (k', f k')) ks) =
         map (\<lambda>k'. (k', if k' = k then f k' @ [r] else f k')) (insort_insert k ks)"
  using assms
proof (induction ks)
  case Nil
  then show ?case by (simp add: insort_insert_key_def)
next
  case (Cons a ks)
  show ?case
  proof (cases "k = a")
    case True
    with Cons.prems show ?thesis by (auto simp: insort_insert_key_def)
  next
    case neq: False
    show ?thesis
    proof (cases "k < a")
      case True
      with Cons.prems have "k \<notin> set (a # ks)" by auto
      with True Cons.prems show ?thesis by (auto simp: insort_insert_key_def)
    next
      case False
      with neq have "a < k" by simp
      with Cons neq show ?thesis by (auto simp: insort_insert_key_def)
    qed
  qed
qed

text \<open>
  One group per key that occurs, in ascending order of the keys; the group of a key is
  the sub-list of the rows with that key.
\<close>

lemma groupby_eq:
  "groupby key df =
   map (\<lambda>k. (k, filter (\<lambda>r. key r = k) df)) (sorted_list_of_set (key ` set df))"
proof (induction df rule: rev_induct)
  case Nil
  then show ?case by (simp add: groupby_def)
next
  case (snoc r df)
  let ?f = "\<lambda>k. filter (\<lambda>r. key r = k) df"
  let ?ks = "sorted_list_of_set (key ` set df)"
  have "groupby key (df @ [r]) = insert_group (key r) r (map (\<lambda>k. (k, ?f k)) ?ks)"
    using snoc by (simp add: groupby_def)
  also have "\<dots> = map (\<lambda>k'. (k', if k' = key r then ?f k' @ [r] else ?f k'))
                       (insort_insert (key r) ?ks)"
    by (rule insert_group_map) (auto simp: filter_empty_conv image_iff)
  also have "insort_insert (key r) ?ks = sorted_list_of_set (key ` set (df @ [r]))"
  proof (cases "key r \<in> key ` set df")
    case True
    then show ?thesis
      by (simp add: insort_insert_key_def insert_absorb del: sorted_list_of_set_insert_remove)
  next
    case False
    then show ?thesis
      by (simp add: insort_insert_key_def sorted_list_of_set_insert
               del: sorted_list_of_set_insert_remove)
  qed
  also have "(\<lambda>k'. (k', if k' = key r then ?f k' @ [r] else ?f k')) =
             (\<lambda>k. (k, filter (\<lambda>r. key r = k) (df @ [r])))"
    by auto
  finally show ?case .
qed

section \<open>Empty input\<close>

text \<open>
  Claim C3. On the empty row set no view fails: booking statistics reports zero
  bookings, zero revenue, a zero average and two empty mappings; revenue statistics
  reports zero revenue and three empty breakdowns; popular routes, daily trends, class
  distribution, top spenders and journey performance each return the empty list.
\<close>

theorem empty_row_set_views:
  "booking_statistics_df [] =
     \<lparr>st_total_bookings = 0, st_total_revenue = 0, st_average_booking_value = 0,
      st_bookings_by_status = Map.empty, st_bookings_by_class = Map.empty\<rparr>
   \<and> revenue_statistics_df strftime [] =
     \<lparr>rs_total_revenue = 0, revenue_by_date = [], revenue_by_class = [],
      revenue_by_route = []\<rparr>
   \<and> popular_routes_df limit [] = []
   \<and> daily_trends_df strftime [] = []
   \<and> class_distribution_df [] = []
   \<and> top_spending_passengers_df limit [] = []
   \<and> journey_performance_df limit [] = []"
  by (simp add: booking_statistics_df_def revenue_statistics_df_def popular_routes_df_def
      daily_trends_df_def class_distribution_df_def top_spending_passengers_df_def
      journey_performance_df_def)

section \<open>The loader\<close>

lemma filter_concat_map:
  "filter P (concat (map f xs)) = concat (map (\<lambda>x. filter P (f x)) xs)"
  by (induction xs) auto

lemma filter_if: "filter P (if c then xs else ys) = (if c then filter P xs else filter P ys)"
  by simp

lemma read_sql_filter:
  "read_sql db s e =
   filter (\<lambda>r. s \<le> booking_date r \<and> booking_date r \<le> e) (booking_records db)"
  unfolding read_sql_def booking_records_def
  by (simp add: filter_concat_map filter_if cong: if_cong)

lemma enrich_columns:
  "id' (enrich r) = id' r"
  "booking_date (enrich r) = booking_date r"
  "amount_paid (enrich r) = amount_paid r"
  "origin_station (enrich r) = origin_station r"
  "destination_station (enrich r) = destination_station r"
  "class_name (enrich r) = class_name r"
  "status (enrich r) = status r"
  "first_name (enrich r) = first_name r"
  "last_name (enrich r) = last_name r"
  "email_address (enrich r) = email_address r"
  "journey_name (enrich r) = journey_name r"
  by (simp_all add: enrich_def sql_row.defs df_row.defs)


lemma get_bookings_df_range:
  "get_bookings_df today db (Some s) (Some e) =
   filter (\<lambda>r. s \<le> booking_date r \<and> booking_date r \<le> e)
     (map enrich (booking_records db))"
  by (simp add: get_bookings_df_def read_sql_filter filter_map comp_def enrich_columns)

text \<open>
  Claim C6. With both bounds supplied, the loader returns exactly the booking records
  whose booking date \<open>d\<close> satisfies \<open>start_date \<le> d \<le> end_date\<close>, both ends included,
  each with its derived columns. When no record is in the range the result is the
  empty frame: in the example database, whose only booking is of day 738960, the range
  of the two days before is empty and the range of that single day is not.
\<close>

theorem loader_returns_bookings_in_range:
  "get_bookings_df today db (Some start_date) (Some end_date) =
     filter (\<lambda>r. start_date \<le> booking_date r \<and> booking_date r \<le> end_date)
       (map enrich (booking_records db))
   \<and> get_bookings_df example_today example_db (Some 738958) (Some 738959) = []
   \<and> map id' (get_bookings_df example_today example_db (Some 738960) (Some 738960)) = [1]"
proof (intro conjI)
  show "get_bookings_df today db (Some start_date) (Some end_date) =
     filter (\<lambda>r. start_date \<le> booking_date r \<and> booking_date r \<le> end_date)
       (map enrich (booking_records db))"
    by (rule get_bookings_df_range)
  show "get_bookings_df example_today example_db (Some 738958) (Some 738959) = []"
    by code_simp
  show "map id' (get_bookings_df example_today example_db (Some 738960) (Some 738960)) = [1]"
    by code_simp
qed

text \<open>
  Claim C9. When only one of the two bounds is supplied, the loader does not use it:
  the frame is that of the default window, from thirty days before today to today,
  the same as when no bound is supplied. The views with an optional date range
  inherit this.
\<close>

theorem loader_one_bound_ignored:
  "get_bookings_df today db (Some start_date) None =
     map enrich (read_sql db (today - 30) today)
   \<and> get_bookings_df today db None (Some end_date) =
     map enrich (read_sql db (today - 30) today)
   \<and> get_bookings_df today db None None = map enrich (read_sql db (today - 30) today)
   \<and> get_booking_statistics today (Some start_date) None db =
     get_booking_statistics today None None db
   \<and> get_booking_statistics today None (Some end_date) db =
     get_booking_statistics today None None db
   \<and> get_revenue_statistics today strftime (Some start_date) None db =
     get_revenue_statistics today strftime None None db
   \<and> get_revenue_statistics today strftime None (Some end_date) db =
     get_revenue_statistics today strftime None None db
   \<and> get_popular_routes today limit (Some start_date) None db =
     get_popular_routes today limit None None db
   \<and> get_popular_routes today limit None (Some end_date) db =
     get_popular_routes today limit None None db
   \<and> get_class_distribution today (Some start_date) None db =
     get_class_distribution today None None db
   \<and> get_class_distribution today None (Some end_date) db =
     get_class_distribution today None None db
   \<and> get_top_spending_passengers today limit (Some start_date) None db =
     get_top_spending_passengers today limit None None db
   \<and> get_top_spending_passengers today limit None (Some end_date) db =
     get_top_spending_passengers today limit None None db
   \<and> get_journey_performance today limit (Some start_date) None db =
     get_journey_performance today limit None None db
   \<and> get_journey_performance today limit None (Some end_date) db =
     get_journey_performance today limit None None db"
  by (simp add: get_bookings_df_def get_date_range_def get_booking_statistics_def
      get_revenue_statistics_def get_popular_routes_def get_class_distribution_def
      get_top_spending_passengers_def get_journey_performance_def)

section \<open>The derived columns\<close>

text \<open>
  The passenger name is the first name, a space and the last name; the column
  assignments keep every row.
\<close>

lemma passenger_name_enrich: "passenger_name (enrich r) = first_name r @ '' '' @ last_name r"
  by (simp add: enrich_def sql_row.defs df_row.defs)

lemma length_get_bookings_df:
  "length (get_bookings_df today db (Some s) (Some e)) = length (read_sql db s e)"
  by (simp add: get_bookings_df_def)

text \<open>
  Claim C8. The route label of a record from A to B is, in the code, the bytes of
  \<open>A\<close>, a space, \<^verbatim>\<open>C3 A2 E2 80 A0 E2 80 99\<close>, a space and \<open>B\<close>: the separator is not the
  arrow of the specification. The passenger name is the first name, a space and the
  last name, and the frame keeps its number of rows.
\<close>

theorem enrich_route_label_bytes:
  "map route (get_bookings_df example_today example_db (Some 738960) (Some 738960)) =
     [[CHR ''A'', CHR '' '', CHR 0xC3, CHR 0xA2, CHR 0xE2, CHR 0x80, CHR 0xA0,
       CHR 0xE2, CHR 0x80, CHR 0x99, CHR '' '', CHR ''B'']]
   \<and> ''A'' @ spec_route_separator @ ''B'' =
     [CHR ''A'', CHR '' '', CHR 0xE2, CHR 0x86, CHR 0x92, CHR '' '', CHR ''B'']
   \<and> map passenger_name
        (get_bookings_df example_today example_db (Some 738960) (Some 738960)) =
     [''Ada Lovelace'']"
  by code_simp

section \<open>The dashboard\<close>



section \<open>Rounding to float64\<close>

lemma pow2_power_int: "pow2 e = power_int 2 e"
  by (simp add: pow2_def power_int_def field_simps)

lemma pow2_pos: "0 < pow2 e"
  by (simp add: pow2_power_int)

lemma pow2_diff: "pow2 (a - b) = pow2 a / pow2 b"
  by (simp add: pow2_power_int power_int_diff)

lemma pow2_nat: "0 \<le> e \<Longrightarrow> pow2 e = 2 ^ nat e"
  by (simp add: pow2_def)

text \<open>The binary exponent of \<open>x\<close> is not too large: \<open>2 ^ e \<le> \<bar>x\<bar>\<close>.\<close>

lemma binary_exponent_le:
  assumes "x \<noteq> 0"
  shows "pow2 (binary_exponent x) \<le> \<bar>x\<bar>"
proof -
  obtain p q where pq: "quotient_of \<bar>x\<bar> = (p, q)"
    by (cases "quotient_of \<bar>x\<bar>")
  then have q: "0 < q" and x: "\<bar>x\<bar> = of_int p / of_int q"
    by (auto simp: quotient_of_denom_pos quotient_of_div)
  from assms have "0 < \<bar>x\<bar>" by simp
  with x q have p: "0 < p"
    by (simp add: zero_less_divide_iff)
  let ?e = "bitlen p - bitlen q"
  have "pow2 (?e - 1) \<le> \<bar>x\<bar>"
  proof -
    from bitlen_bounds [OF p] have lo: "(2::int) ^ nat (bitlen p - 1) \<le> p" by simp
    from bitlen_bounds [OF q] have hi: "q < (2::int) ^ nat (bitlen q)" by simp
    have bp: "1 \<le> bitlen p" and bq: "0 \<le> bitlen q"
      using p q by (simp_all add: bitlen_def floorlog_def split: if_splits)
    have "pow2 (?e - 1) = pow2 (bitlen p - 1) / pow2 (bitlen q)"
      using pow2_diff [of "bitlen p - 1" "bitlen q"] by (simp add: algebra_simps)
    also have "\<dots> = 2 ^ nat (bitlen p - 1) / 2 ^ nat (bitlen q)"
      using bp bq by (simp add: pow2_nat)
    also have "\<dots> \<le> of_int p / of_int q"
    proof -
      have a: "(2::rat) ^ nat (bitlen p - 1) \<le> of_int p"
        using lo by (metis of_int_le_iff of_int_numeral of_int_power)
      have b: "of_int q \<le> (2::rat) ^ nat (bitlen q)"
        using hi by (metis less_imp_le of_int_le_iff of_int_numeral of_int_power)
      have c: "(0::rat) < of_int q" using q by simp
      have d: "(0::rat) \<le> of_int p" using p by simp
      from a b c d show ?thesis
        by (intro frac_le) simp_all
    qed
    finally show ?thesis by (simp add: x)
  qed
  then show ?thesis
    by (simp add: binary_exponent_def pq Let_def)
qed

text \<open>And it is not too small: \<open>\<bar>x\<bar> < 2 ^ (e + 1)\<close>.\<close>

lemma binary_exponent_less:
  assumes "x \<noteq> 0"
  shows "\<bar>x\<bar> < pow2 (binary_exponent x + 1)"
proof -
  obtain p q where pq: "quotient_of \<bar>x\<bar> = (p, q)"
    by (cases "quotient_of \<bar>x\<bar>")
  then have q: "0 < q" and x: "\<bar>x\<bar> = of_int p / of_int q"
    by (auto simp: quotient_of_denom_pos quotient_of_div)
  from assms have "0 < \<bar>x\<bar>" by simp
  with x q have p: "0 < p"
    by (simp add: zero_less_divide_iff)
  let ?e = "bitlen p - bitlen q"
  have "\<bar>x\<bar> < pow2 (?e + 1)"
  proof -
    from bitlen_bounds [OF p] have hi: "p < (2::int) ^ nat (bitlen p)" by simp
    from bitlen_bounds [OF q] have lo: "(2::int) ^ nat (bitlen q - 1) \<le> q" by simp
    have bp: "0 \<le> bitlen p" and bq: "1 \<le> bitlen q"
      using p q by (simp_all add: bitlen_def floorlog_def split: if_splits)
    have a: "of_int p < (2::rat) ^ nat (bitlen p)"
      using hi by (metis of_int_less_iff of_int_numeral of_int_power)
    have b: "(2::rat) ^ nat (bitlen q - 1) \<le> of_int q"
      using lo by (metis of_int_le_iff of_int_numeral of_int_power)
    have c: "(0::rat) < 2 ^ nat (bitlen q - 1)" by simp
    have d: "(0::rat) \<le> of_int p" using p by simp
    have "(of_int p :: rat) / of_int q < 2 ^ nat (bitlen p) / 2 ^ nat (bitlen q - 1)"
      using d a c b by (rule frac_less)
    also have "\<dots> = pow2 (bitlen p) / pow2 (bitlen q - 1)"
      using bp bq by (simp add: pow2_nat)
    also have "\<dots> = pow2 (?e + 1)"
      using pow2_diff [of "bitlen p" "bitlen q - 1"] by (simp add: algebra_simps)
    finally show ?thesis by (simp add: x)
  qed
  then show ?thesis
    by (auto simp: binary_exponent_def pq Let_def)
qed

lemma round_half_even_error: "\<bar>of_int (round_half_even y) - y\<bar> \<le> 1 / 2"
proof -
  have "of_int \<lfloor>y\<rfloor> \<le> y" and "y < of_int \<lfloor>y\<rfloor> + 1"
    by linarith+
  then show ?thesis
    by (auto simp: round_half_even_def Let_def abs_le_iff)
qed

text \<open>Rounding to float64 moves a number by at most the fraction \<open>2 ^ -53\<close> of itself.\<close>

lemma float64_error: "\<bar>float64 x - x\<bar> \<le> \<bar>x\<bar> / 2 ^ 53"
proof (cases "x = 0")
  case True
  then show ?thesis by (simp add: float64_def)
next
  case False
  define ulp where "ulp = pow2 (binary_exponent x - 52)"
  have ulp_pos: "0 < ulp" by (simp add: ulp_def pow2_pos)
  have "ulp = pow2 (binary_exponent x) / pow2 52"
    unfolding ulp_def by (rule pow2_diff)
  also have "pow2 52 = 2 ^ 52" by (simp add: pow2_def)
  finally have "ulp * 2 ^ 52 = pow2 (binary_exponent x)" by simp
  with binary_exponent_le [OF False] have ulp_le: "ulp * 2 ^ 52 \<le> \<bar>x\<bar>" by simp
  have fl: "float64 x = of_int (round_half_even (x / ulp)) * ulp"
    using False by (simp add: float64_def ulp_def Let_def)
  have "float64 x - x = (of_int (round_half_even (x / ulp)) - x / ulp) * ulp"
    using ulp_pos by (simp add: fl left_diff_distrib)
  then have "\<bar>float64 x - x\<bar> = \<bar>of_int (round_half_even (x / ulp)) - x / ulp\<bar> * ulp"
    using ulp_pos by (simp add: abs_mult)
  also have "\<dots> \<le> 1 / 2 * ulp"
    using round_half_even_error [of "x / ulp"] ulp_pos by (intro mult_right_mono) simp_all
  also have "\<dots> \<le> \<bar>x\<bar> / 2 ^ 53"
    using ulp_le by simp
  finally show ?thesis .
qed

lemma float64_error_bound:
  assumes "\<bar>x\<bar> \<le> b"
  shows "\<bar>float64 x - x\<bar> \<le> b / 2 ^ 53"
proof -
  have "\<bar>float64 x - x\<bar> \<le> \<bar>x\<bar> / 2 ^ 53" by (rule float64_error)
  also have "\<dots> \<le> b / 2 ^ 53" using assms by (simp add: divide_right_mono)
  finally show ?thesis .
qed

section \<open>Sums over groups\<close>

lemma groupby_snoc: "groupby key (df @ [r]) = insert_group (key r) r (groupby key df)"
  by (simp add: groupby_def)

lemma sum_insert_group:
  fixes f :: "'r \<Rightarrow> 'a::comm_monoid_add"
  shows "(\<Sum>(k', rs) \<leftarrow> insert_group k r gs. sum_list (map f rs)) =
         (\<Sum>(k', rs) \<leftarrow> gs. sum_list (map f rs)) + f r"
  by (induction gs) (auto simp: add_ac)

text \<open>Every row is in exactly one group: summing group by group is summing the frame.\<close>

lemma groupby_sum:
  fixes f :: "'r \<Rightarrow> 'a::comm_monoid_add"
  shows "(\<Sum>(k, rs) \<leftarrow> groupby key df. sum_list (map f rs)) = sum_list (map f df)"
  by (induction df rule: rev_induct) (simp_all add: groupby_snoc sum_insert_group groupby_def)

lemma groupby_agg_sum: "(\<Sum>(k, rs) \<leftarrow> groupby key df. agg_sum rs) = agg_sum df"
  unfolding agg_sum_def by (rule groupby_sum)

lemma groupby_agg_count: "(\<Sum>(k, rs) \<leftarrow> groupby key df. agg_count rs) = int (length df)"
  using groupby_sum [of "\<lambda>r. 1::int" key df]
  by (simp add: agg_count_def sum_list_triv cong: map_cong)

lemma groupby_nonempty: "(k, rs) \<in> set (groupby key df) \<Longrightarrow> rs \<noteq> []"
  by (auto simp: groupby_eq filter_empty_conv)

section \<open>The top of a frame: what \<open>nlargest\<close> computes\<close>

lemma set_nlargest: "set (nlargest n col xs) \<subseteq> set xs"
  unfolding nlargest_def using set_take_subset [of "nat n" "sort_key (\<lambda>x. - col x) xs"]
  by simp







section \<open>Grouping on a column with missing values\<close>

lemma groupby_dropna_snoc:
  "groupby_dropna key (df @ [r]) =
   (case key r of None \<Rightarrow> groupby_dropna key df
    | Some k \<Rightarrow> insert_group k r (groupby_dropna key df))"
  unfolding groupby_dropna_def by simp

lemma map_filter_snoc:
  "List.map_filter f (xs @ [x]) =
   (case f x of None \<Rightarrow> List.map_filter f xs | Some y \<Rightarrow> List.map_filter f xs @ [y])"
  by (simp add: List.map_filter_def split: option.splits)

lemma set_map_filter: "set (List.map_filter f xs) = {y. Some y \<in> f ` set xs}"
  by (induction xs) (auto simp: List.map_filter_def)

text \<open>
  One group per key that is present, in ascending order of the keys; the group of a key
  is the sub-list of the rows with that key, and a row without a key is in no group.
\<close>

lemma groupby_dropna_eq:
  "groupby_dropna key df =
   map (\<lambda>k. (k, filter (\<lambda>r. key r = Some k) df))
       (sorted_list_of_set (set (List.map_filter key df)))"
proof (induction df rule: rev_induct)
  case Nil
  then show ?case by (simp add: groupby_dropna_def List.map_filter_def)
next
  case (snoc r df)
  show ?case
  proof (cases "key r")
    case None
    then have "filter (\<lambda>r. key r = Some k) (df @ [r]) = filter (\<lambda>r. key r = Some k) df" for k
      by simp
    with None snoc show ?thesis
      by (simp add: groupby_dropna_snoc map_filter_snoc)
  next
    case (Some k)
    let ?f = "\<lambda>k. filter (\<lambda>r. key r = Some k) df"
    let ?ks = "sorted_list_of_set (set (List.map_filter key df))"
    have "groupby_dropna key (df @ [r]) = insert_group k r (map (\<lambda>k. (k, ?f k)) ?ks)"
      using snoc Some by (simp add: groupby_dropna_snoc)
    also have "\<dots> = map (\<lambda>k'. (k', if k' = k then ?f k' @ [r] else ?f k')) (insort_insert k ?ks)"
    proof (rule insert_group_map)
      show "sorted ?ks" by simp
      show "distinct ?ks" by simp
      assume "k \<notin> set ?ks"
      then have "k \<notin> set (List.map_filter key df)" by simp
      then show "?f k = []"
        by (auto simp: filter_empty_conv set_map_filter image_iff)
    qed
    also have "insort_insert k ?ks = sorted_list_of_set (set (List.map_filter key (df @ [r])))"
    proof (cases "k \<in> set (List.map_filter key df)")
      case True
      then show ?thesis
        using Some
        by (simp add: insort_insert_key_def insert_absorb map_filter_snoc
                 del: sorted_list_of_set_insert_remove)
    next
      case False
      then show ?thesis
        using Some
        by (simp add: insort_insert_key_def sorted_list_of_set_insert map_filter_snoc
                 del: sorted_list_of_set_insert_remove)
    qed
    also have "(\<lambda>k'. (k', if k' = k then ?f k' @ [r] else ?f k')) =
               (\<lambda>k'. (k', filter (\<lambda>r. key r = Some k') (df @ [r])))"
      using Some by auto
    finally show ?thesis .
  qed
qed

lemma groupby_dropna_sum:
  fixes f :: "'r \<Rightarrow> 'a::comm_monoid_add"
  shows "(\<Sum>(k, rs) \<leftarrow> groupby_dropna key df. sum_list (map f rs)) =
         sum_list (map f (filter (\<lambda>r. key r \<noteq> None) df))"
  by (induction df rule: rev_induct)
     (simp_all add: groupby_dropna_snoc sum_insert_group groupby_dropna_def split: option.splits)

lemma groupby_dropna_agg_sum:
  "(\<Sum>(k, rs) \<leftarrow> groupby_dropna key df. agg_sum rs) =
   agg_sum (filter (\<lambda>r. key r \<noteq> None) df)"
  unfolding agg_sum_def by (rule groupby_dropna_sum)

lemma groupby_dropna_agg_count:
  "(\<Sum>(k, rs) \<leftarrow> groupby_dropna key df. agg_count rs) =
   int (length (filter (\<lambda>r. key r \<noteq> None) df))"
  using groupby_dropna_sum [of "\<lambda>r. 1::int" key df]
  by (simp add: agg_count_def sum_list_triv cong: map_cong)

section \<open>Revenue\<close>

text \<open>
  A frame with a booking whose class name is \<^verbatim>\<open>NULL\<close>: the booking statistics count its
  amount in the total revenue, 300, while the revenue by class has no group for it and
  adds up to 100.
\<close>

theorem null_class_revenue_counterexample:
  "st_total_revenue (booking_statistics_df (map enrich null_class_rows)) = 300
   \<and> revenue_by_class (revenue_statistics_df example_strftime (map enrich null_class_rows)) =
       [(''First'', 60), (''Standard'', 40)]
   \<and> st_total_revenue (booking_statistics_df (map enrich null_class_rows)) \<noteq>
       of_int (\<Sum>(c, revenue) \<leftarrow> revenue_by_class
                 (revenue_statistics_df example_strftime (map enrich null_class_rows)). revenue)"
  by code_simp

text \<open>
  Claim C4, amended. For every row set in which every class name is present, the
  total revenue of the booking statistics is the sum of the revenues that the revenue
  statistics report per class.
\<close>

theorem total_revenue_is_sum_of_named_class_revenues:
  assumes "\<forall>r \<in> set df. class_name r \<noteq> None"
  shows "st_total_revenue (booking_statistics_df df) =
     of_int (\<Sum>(c, revenue) \<leftarrow> revenue_by_class (revenue_statistics_df strftime df). revenue)"
proof (cases "df = []")
  case True
  then show ?thesis by (simp add: booking_statistics_df_def revenue_statistics_df_def)
next
  case False
  from assms have all: "filter (\<lambda>r. class_name r \<noteq> None) df = df"
    by (simp add: filter_id_conv)
  have "(\<Sum>(c, revenue) \<leftarrow> map (\<lambda>(c, rows). (c, agg_sum rows)) (groupby_dropna class_name df).
          revenue) = (\<Sum>(k, rs) \<leftarrow> groupby_dropna class_name df. agg_sum rs)"
    by (simp add: comp_def case_prod_unfold)
  also have "\<dots> = agg_sum df"
    unfolding groupby_dropna_agg_sum all ..
  finally show ?thesis
    using False by (simp add: booking_statistics_df_def revenue_statistics_df_def Let_def)
qed

theorem total_revenue_is_sum_of_named_class_revenues_witness:
  "list_all (\<lambda>r. class_name r \<noteq> None) (map enrich three_routes_rows)
   \<and> st_total_revenue (booking_statistics_df (map enrich three_routes_rows)) = 740
   \<and> rat_of_int (\<Sum>(c, revenue) \<leftarrow> revenue_by_class
         (revenue_statistics_df example_strftime (map enrich three_routes_rows)). revenue) = 740"
proof -
  have all_named: "list_all (\<lambda>r. class_name r \<noteq> None) (map enrich three_routes_rows)"
    by code_simp
  then have named: "\<forall>r \<in> set (map enrich three_routes_rows). class_name r \<noteq> None"
    by (simp only: list_all_iff)
  have total: "st_total_revenue (booking_statistics_df (map enrich three_routes_rows)) = 740"
    by code_simp
  from total_revenue_is_sum_of_named_class_revenues [OF named, of example_strftime] total
  have "rat_of_int (\<Sum>(c, revenue) \<leftarrow> revenue_by_class
         (revenue_statistics_df example_strftime (map enrich three_routes_rows)). revenue) = 740"
    by simp
  with all_named total show ?thesis by (intro conjI)
qed

section \<open>Daily trends\<close>

text \<open>
  Claim C5. The daily trends of a frame are one entry per date that occurs in it, in
  ascending order of the dates (\<open>sorted_list_of_set\<close> lists a set in strictly ascending
  order); the entry of a date holds the number of the bookings of that date and the
  sum of their amounts.
\<close>

theorem daily_trends_one_entry_per_date:
  "daily_trends_df strftime df =
   map (\<lambda>d. \<lparr>dt_date = strftime d,
              dt_booking_count = int (length (filter (\<lambda>r. booking_date r = d) df)),
              dt_revenue =
                of_int (sum_list (map amount_paid (filter (\<lambda>r. booking_date r = d) df)))\<rparr>)
       (sorted_list_of_set (booking_date ` set df))"
  by (simp add: daily_trends_df_def groupby_eq agg_count_def agg_sum_def comp_def)

text \<open>
  The scenario of the specification: amounts 50 and 150 on one day and 100 on the day
  before.
\<close>

lemma daily_trends_scenario:
  "daily_trends_df example_strftime
     (map enrich [example_row 1 738960 50 ''A'' ''B'' ''First'',
                  example_row 2 738959 100 ''A'' ''B'' ''First'',
                  example_row 3 738960 150 ''A'' ''B'' ''First'']) =
   [\<lparr>dt_date = ''2024-03-14'', dt_booking_count = 1, dt_revenue = 100\<rparr>,
    \<lparr>dt_date = ''2024-03-15'', dt_booking_count = 2, dt_revenue = 200\<rparr>]"
  by code_simp

section \<open>Popular routes: the average price\<close>

lemma agg_mean_error:
  assumes "rows \<noteq> []"
  shows "\<bar>agg_mean rows * of_int (agg_count rows) - of_int (agg_sum rows)\<bar>
         \<le> \<bar>of_int (agg_sum rows)\<bar> / 2 ^ 53"
proof -
  define n :: rat where "n = of_int (agg_count rows)"
  define s :: rat where "s = of_int (agg_sum rows)"
  from assms have n: "0 < n" by (simp add: n_def agg_count_def)
  have m: "agg_mean rows = float64 (s / n)"
    by (simp add: agg_mean_def fdiv_def s_def n_def)
  have "float64 (s / n) * n - s = (float64 (s / n) - s / n) * n"
    using n by (simp add: left_diff_distrib)
  then have "\<bar>float64 (s / n) * n - s\<bar> = \<bar>float64 (s / n) - s / n\<bar> * n"
    using n by (simp add: abs_mult)
  also have "\<dots> \<le> \<bar>s / n\<bar> / 2 ^ 53 * n"
    using float64_error [of "s / n"] n by (intro mult_right_mono) simp_all
  also have "\<dots> = \<bar>s\<bar> / 2 ^ 53"
    using n by simp
  finally show ?thesis
    by (simp add: m n_def s_def)
qed

lemma route_stats_mean:
  assumes "(origin, destination, rt, n, s, m) \<in> set (route_stats df)"
  shows "m = float64 (of_int s / of_int n) \<and> \<bar>m * of_int n - of_int s\<bar> \<le> \<bar>of_int s\<bar> / 2 ^ 53"
proof -
  from assms obtain rows where rows: "rows \<noteq> []"
    and n: "n = agg_count rows" and s: "s = agg_sum rows" and m: "m = agg_mean rows"
    by (auto simp: route_stats_def dest: groupby_nonempty)
  have "m = float64 (of_int s / of_int n)"
    by (simp add: m n s agg_mean_def fdiv_def)
  moreover have "\<bar>m * of_int n - of_int s\<bar> \<le> \<bar>of_int s\<bar> / 2 ^ 53"
    unfolding m n s using rows by (rule agg_mean_error)
  ultimately show ?thesis by (intro conjI)
qed

text \<open>
  Seven bookings on one route with amounts adding up to 29: the average price is the
  float64 nearest to 29 / 7, and seven times that number is not 29.
\<close>

theorem seven_bookings_mean_counterexample:
  "popular_routes_df 10 (map enrich seven_bookings_rows) =
     [\<lparr>pr_origin = ''A'', pr_destination = ''B'', pr_booking_count = 7,
       pr_total_revenue = 29,
       pr_average_price = 4664442471205157 / 1125899906842624\<rparr>]
   \<and> (4664442471205157 / 1125899906842624 :: rat) * of_int 7 \<noteq> 29"
  by code_simp

text \<open>
  Claim C10, amended. In every entry of the popular routes, the average price is the
  float64 nearest to the total revenue divided by the booking count; so the average
  price times the booking count is the total revenue up to the rounding of that one
  division, at most the fraction \<open>2 ^ -53\<close> of the total revenue.
\<close>

theorem popular_routes_mean_is_rounded_quotient:
  "\<forall>e \<in> set (popular_routes_df limit df).
     pr_average_price e = float64 (pr_total_revenue e / of_int (pr_booking_count e))
     \<and> \<bar>pr_average_price e * of_int (pr_booking_count e) - pr_total_revenue e\<bar>
         \<le> \<bar>pr_total_revenue e\<bar> / 2 ^ 53"
proof
  fix e assume "e \<in> set (popular_routes_df limit df)"
  then obtain origin destination rt n s m where
    "(origin, destination, rt, n, s, m) \<in> set (route_stats df)" and
    "e = \<lparr>pr_origin = origin, pr_destination = destination, pr_booking_count = n,
          pr_total_revenue = of_int s, pr_average_price = m\<rparr>"
    using set_nlargest [of limit _ "route_stats df"]
    by (fastforce simp: popular_routes_df_def split: if_splits)
  then show "pr_average_price e = float64 (pr_total_revenue e / of_int (pr_booking_count e))
     \<and> \<bar>pr_average_price e * of_int (pr_booking_count e) - pr_total_revenue e\<bar>
         \<le> \<bar>pr_total_revenue e\<bar> / 2 ^ 53"
    using route_stats_mean by simp
qed

theorem popular_routes_mean_is_rounded_quotient_witness:
  "\<lparr>pr_origin = ''B'', pr_destination = ''C'', pr_booking_count = 3,
    pr_total_revenue = 125, pr_average_price = 5864062014805333 / 140737488355328\<rparr>
     \<in> set (popular_routes_df 2 (map enrich three_routes_rows))
   \<and> (5864062014805333 / 140737488355328 :: rat) = float64 (125 / of_int 3)
   \<and> \<bar>(5864062014805333 / 140737488355328 :: rat) * of_int 3 - 125\<bar> \<le> \<bar>125\<bar> / 2 ^ 53"
proof -
  have mem: "\<lparr>pr_origin = ''B'', pr_destination = ''C'', pr_booking_count = 3,
               pr_total_revenue = 125, pr_average_price = 5864062014805333 / 140737488355328\<rparr>
             \<in> set (popular_routes_df 2 (map enrich three_routes_rows))"
    by code_simp
  from popular_routes_mean_is_rounded_quotient [of 2 "map enrich three_routes_rows", rule_format, OF mem]
  have "(5864062014805333 / 140737488355328 :: rat) = float64 (125 / of_int 3)
   \<and> \<bar>(5864062014805333 / 140737488355328 :: rat) * of_int 3 - 125\<bar> \<le> \<bar>125\<bar> / 2 ^ 53"
    by simp
  with mem show ?thesis by blast
qed

section \<open>Class distribution\<close>

text \<open>
  The percentage of a share \<open>p\<close> between 0 and 1: four roundings to float64 and one to
  the nearest integer of hundredths leave it within 0.005 and a little of \<open>100 p\<close>.
\<close>

lemma percentage_error:
  fixes p :: rat
  assumes "0 \<le> p" and "p \<le> 1"
  shows "\<bar>round2 (fmul (float64 p) 100) - p * 100\<bar> \<le> 1 / 200 + 1 / 10 ^ 12"
proof -
  define a where "a = float64 p"
  define b where "b = float64 (a * 100)"
  define c where "c = float64 (b * 100)"
  define k :: rat where "k = of_int (round_half_even c)"
  define d where "d = float64 (k / 100)"
  have res: "round2 (fmul (float64 p) 100) = d"
    by (simp add: round2_def fmul_def fdiv_def a_def b_def c_def k_def d_def)
  have a: "\<bar>a - p\<bar> \<le> 1 / 2 ^ 53"
    unfolding a_def using assms by (intro float64_error_bound) simp
  then have "\<bar>a * 100\<bar> \<le> 101"
    using assms unfolding abs_le_iff by (simp, linarith?)
  then have "\<bar>b - a * 100\<bar> \<le> 101 / 2 ^ 53"
    unfolding b_def by (rule float64_error_bound)
  with a have b: "\<bar>b - p * 100\<bar> \<le> 201 / 2 ^ 53"
    unfolding abs_le_iff by (simp, linarith?)
  then have "\<bar>b * 100\<bar> \<le> 10100"
    using assms unfolding abs_le_iff by (simp, linarith?)
  then have "\<bar>c - b * 100\<bar> \<le> 10100 / 2 ^ 53"
    unfolding c_def by (rule float64_error_bound)
  with b have c: "\<bar>c - p * 10000\<bar> \<le> 30200 / 2 ^ 53"
    unfolding abs_le_iff by (simp, linarith?)
  have kc: "\<bar>k - c\<bar> \<le> 1 / 2"
    unfolding k_def by (rule round_half_even_error)
  with c have k: "\<bar>k - p * 10000\<bar> \<le> 1 / 2 + 30200 / 2 ^ 53"
    unfolding abs_le_iff by (simp, linarith?)
  then have "\<bar>k / 100\<bar> \<le> 101"
    using assms unfolding abs_le_iff by (simp, linarith?)
  then have "\<bar>d - k / 100\<bar> \<le> 101 / 2 ^ 53"
    unfolding d_def by (rule float64_error_bound)
  with k have "\<bar>d - p * 100\<bar> \<le> 1 / 200 + 1 / 10 ^ 12"
    unfolding abs_le_iff by (simp, linarith?)
  then show ?thesis by (simp only: res)
qed

lemma sum_list_abs_diff:
  fixes f g :: "'a \<Rightarrow> rat"
  assumes "\<forall>x \<in> set xs. \<bar>f x - g x\<bar> \<le> eps"
  shows "\<bar>sum_list (map f xs) - sum_list (map g xs)\<bar> \<le> of_nat (length xs) * eps"
  using assms
proof (induction xs)
  case Nil
  then show ?case by simp
next
  case (Cons a xs)
  then have "\<bar>f a - g a\<bar> \<le> eps"
    and "\<bar>sum_list (map f xs) - sum_list (map g xs)\<bar> \<le> of_nat (length xs) * eps"
    by simp_all
  then show ?case by (simp add: algebra_simps abs_le_iff)
qed

lemma sum_list_exact_percentages:
  fixes n :: rat
  shows "(\<Sum>e \<leftarrow> xs. of_int (c e) / n * 100) = of_int (\<Sum>e \<leftarrow> xs. c e) / n * 100"
  by (induction xs) (simp_all add: add_divide_distrib distrib_right)

lemma class_stats_total:
  "sum_list (map (\<lambda>(c, n, s). n)
     (map (\<lambda>(c, rows). (c, agg_count rows, agg_sum rows)) (groupby_dropna class_name df))) =
   int (length (filter (\<lambda>r. class_name r \<noteq> None) df))"
  using groupby_dropna_agg_count [of class_name df] by (simp add: comp_def case_prod_unfold)

lemma class_distribution_eq:
  "class_distribution_df df =
   map (\<lambda>c. \<lparr>cd_class_name = c,
              cd_booking_count = int (length (filter (\<lambda>r. class_name r = Some c) df)),
              cd_revenue =
                of_int (sum_list (map amount_paid (filter (\<lambda>r. class_name r = Some c) df))),
              cd_percentage =
                round2 (fmul (fdiv (of_int (int (length (filter (\<lambda>r. class_name r = Some c) df))))
                                   (of_int (int (length (filter (\<lambda>r. class_name r \<noteq> None) df)))))
                             100)\<rparr>)
       (sorted_list_of_set (set (List.map_filter class_name df)))"
proof (cases "df = []")
  case True
  then show ?thesis by (simp add: class_distribution_df_def List.map_filter_def)
next
  case False
  then show ?thesis
    unfolding class_distribution_df_def Let_def class_stats_total
    by (simp add: groupby_dropna_eq agg_count_def agg_sum_def comp_def)
qed

lemma class_distribution_counts:
  "(\<Sum>e \<leftarrow> class_distribution_df df. cd_booking_count e) =
   int (length (filter (\<lambda>r. class_name r \<noteq> None) df))"
proof (cases "df = []")
  case True
  then show ?thesis by (simp add: class_distribution_df_def)
next
  case False
  have "(\<Sum>e \<leftarrow> class_distribution_df df. cd_booking_count e) =
        (\<Sum>(k, rs) \<leftarrow> groupby_dropna class_name df. agg_count rs)"
    using False by (simp add: class_distribution_df_def Let_def comp_def case_prod_unfold)
  then show ?thesis by (simp add: groupby_dropna_agg_count)
qed

lemma class_distribution_percentage:
  assumes "e \<in> set (class_distribution_df df)"
  shows "cd_percentage e =
           round2 (fmul (fdiv (of_int (cd_booking_count e))
                              (of_int (int (length (filter (\<lambda>r. class_name r \<noteq> None) df)))))
                        100)
         \<and> 0 < cd_booking_count e
         \<and> cd_booking_count e \<le> int (length (filter (\<lambda>r. class_name r \<noteq> None) df))"
proof -
  from assms obtain c where c: "c \<in> set (List.map_filter class_name df)"
    and e: "e = \<lparr>cd_class_name = c,
              cd_booking_count = int (length (filter (\<lambda>r. class_name r = Some c) df)),
              cd_revenue =
                of_int (sum_list (map amount_paid (filter (\<lambda>r. class_name r = Some c) df))),
              cd_percentage =
                round2 (fmul (fdiv (of_int (int (length (filter (\<lambda>r. class_name r = Some c) df))))
                                   (of_int (int (length (filter (\<lambda>r. class_name r \<noteq> None) df)))))
                             100)\<rparr>"
    unfolding class_distribution_eq by auto
  from c have "filter (\<lambda>r. class_name r = Some c) df \<noteq> []"
    by (auto simp: set_map_filter filter_empty_conv image_iff)
  then have pos: "0 < length (filter (\<lambda>r. class_name r = Some c) df)" by simp
  have "filter (\<lambda>r. class_name r = Some c) df
        = filter (\<lambda>r. class_name r = Some c) (filter (\<lambda>r. class_name r \<noteq> None) df)"
    by (induction df) auto
  then have "length (filter (\<lambda>r. class_name r = Some c) df)
        = length (filter (\<lambda>r. class_name r = Some c) (filter (\<lambda>r. class_name r \<noteq> None) df))"
    by simp
  also have "\<dots> \<le> length (filter (\<lambda>r. class_name r \<noteq> None) df)"
    by (rule length_filter_le)
  finally show ?thesis using pos by (simp add: e)
qed

text \<open>
  With 23 of 160 bookings in class First the exact percentage is 14.375, which rounds
  to 14.38; the code divides and multiplies in float64, reaches a number just below
  1437.5 and returns the float64 of 14.37. With a booking whose class name is \<^verbatim>\<open>NULL\<close>,
  the counts of the classes add up to 2 for a frame of 3 rows.
\<close>

theorem class_distribution_counterexample:
  "map cd_percentage (class_distribution_df (map enrich float_rounding_rows)) =
     [8089590830664253 / 562949953421312, 753121484561449 / 8796093022208]
   \<and> (8089590830664253 / 562949953421312 :: rat) = float64 (1437 / 100)
   \<and> round_half_even (23 / 160 * 100 * 100) = 1438
   \<and> float64 (1437 / 100) \<noteq> float64 (1438 / 100)
   \<and> map cd_booking_count (class_distribution_df (map enrich null_class_rows)) = [1, 1]
   \<and> length (map enrich null_class_rows) = 3"
  by code_simp

text \<open>
  Claim C2, amended. For every row set with at least one class name present, the
  class distribution is one entry per class name that is present; rows whose class
  name is \<^verbatim>\<open>NULL\<close> are left out. The entry of a class holds the number of its bookings, the
  sum of their amounts, and as percentage the float64 computation of that number
  divided by the number of rows with a class name, times 100, rounded by \<^verbatim>\<open>round(2)\<close>;
  it is within 0.005 (and \<open>10 ^ -12\<close> for the float64 roundings) of the exact percentage.
  The booking counts add up to the number of rows with a class name, and the
  percentages add up to 100 within that tolerance per entry.
\<close>

theorem class_distribution_of_named_classes:
  assumes "\<exists>r \<in> set df. class_name r \<noteq> None"
  shows "class_distribution_df df =
     map (\<lambda>c. \<lparr>cd_class_name = c,
                cd_booking_count = int (length (filter (\<lambda>r. class_name r = Some c) df)),
                cd_revenue =
                  of_int (sum_list (map amount_paid (filter (\<lambda>r. class_name r = Some c) df))),
                cd_percentage =
                  round2 (fmul (fdiv (of_int (int (length (filter (\<lambda>r. class_name r = Some c) df))))
                                     (of_int (int (length (filter (\<lambda>r. class_name r \<noteq> None) df)))))
                               100)\<rparr>)
         (sorted_list_of_set (set (List.map_filter class_name df)))
   \<and> (\<Sum>e \<leftarrow> class_distribution_df df. cd_booking_count e) =
       int (length (filter (\<lambda>r. class_name r \<noteq> None) df))
   \<and> (\<forall>e \<in> set (class_distribution_df df).
         \<bar>cd_percentage e
           - of_int (cd_booking_count e)
             / of_int (int (length (filter (\<lambda>r. class_name r \<noteq> None) df))) * 100\<bar>
         \<le> 1 / 200 + 1 / 10 ^ 12)
   \<and> \<bar>(\<Sum>e \<leftarrow> class_distribution_df df. cd_percentage e) - 100\<bar>
       \<le> of_nat (length (class_distribution_df df)) * (1 / 200 + 1 / 10 ^ 12)"
proof (intro conjI)
  let ?res = "class_distribution_df df"
  let ?total = "int (length (filter (\<lambda>r. class_name r \<noteq> None) df))"
  let ?exact = "\<lambda>e. of_int (cd_booking_count e) / of_int ?total * (100::rat)"
  from assms have total: "0 < ?total"
    by (auto simp: filter_empty_conv)
  show "?res =
     map (\<lambda>c. \<lparr>cd_class_name = c,
                cd_booking_count = int (length (filter (\<lambda>r. class_name r = Some c) df)),
                cd_revenue =
                  of_int (sum_list (map amount_paid (filter (\<lambda>r. class_name r = Some c) df))),
                cd_percentage =
                  round2 (fmul (fdiv (of_int (int (length (filter (\<lambda>r. class_name r = Some c) df))))
                                     (of_int ?total))
                               100)\<rparr>)
         (sorted_list_of_set (set (List.map_filter class_name df)))"
    by (rule class_distribution_eq)
  show counts: "(\<Sum>e \<leftarrow> ?res. cd_booking_count e) = ?total"
    by (rule class_distribution_counts)
  show each: "\<forall>e \<in> set ?res. \<bar>cd_percentage e - ?exact e\<bar> \<le> 1 / 200 + 1 / 10 ^ 12"
  proof
    fix e assume "e \<in> set ?res"
    from class_distribution_percentage [OF this]
    have pct: "cd_percentage e =
                 round2 (fmul (fdiv (of_int (cd_booking_count e)) (of_int ?total)) 100)"
      and pos: "0 < cd_booking_count e" and le: "cd_booking_count e \<le> ?total"
      by blast+
    define p :: rat where "p = of_int (cd_booking_count e) / of_int ?total"
    have "0 \<le> p" and "p \<le> 1"
      using pos le total by (simp_all add: p_def)
    then have "\<bar>round2 (fmul (float64 p) 100) - p * 100\<bar> \<le> 1 / 200 + 1 / 10 ^ 12"
      by (rule percentage_error)
    then show "\<bar>cd_percentage e - ?exact e\<bar> \<le> 1 / 200 + 1 / 10 ^ 12"
      unfolding pct fdiv_def p_def .
  qed
  have "(\<Sum>e \<leftarrow> ?res. ?exact e) =
        of_int (\<Sum>e \<leftarrow> ?res. cd_booking_count e) / of_int ?total * 100"
    by (rule sum_list_exact_percentages)
  also have "\<dots> = 100"
    using total by (simp add: counts)
  finally have exact: "(\<Sum>e \<leftarrow> ?res. ?exact e) = 100" .
  from each have "\<bar>(\<Sum>e \<leftarrow> ?res. cd_percentage e) - (\<Sum>e \<leftarrow> ?res. ?exact e)\<bar>
             \<le> of_nat (length ?res) * (1 / 200 + 1 / 10 ^ 12)"
    by (rule sum_list_abs_diff)
  then show "\<bar>(\<Sum>e \<leftarrow> ?res. cd_percentage e) - 100\<bar>
             \<le> of_nat (length ?res) * (1 / 200 + 1 / 10 ^ 12)"
    unfolding exact .
qed

theorem class_distribution_of_named_classes_witness:
  "list_ex (\<lambda>r. class_name r \<noteq> None) (map enrich three_routes_rows)
   \<and> map cd_percentage (class_distribution_df (map enrich three_routes_rows)) =
       [781796747813847 / 17592186044416, 781796747813847 / 35184372088832,
        2345390243441541 / 70368744177664]
   \<and> (\<Sum>e \<leftarrow> class_distribution_df (map enrich three_routes_rows). cd_booking_count e) = 9
   \<and> \<bar>(\<Sum>e \<leftarrow> class_distribution_df (map enrich three_routes_rows). cd_percentage e) - 100\<bar>
       \<le> 3 * (1 / 200 + 1 / 10 ^ 12)"
proof -
  have some_named: "list_ex (\<lambda>r. class_name r \<noteq> None) (map enrich three_routes_rows)"
    by code_simp
  then have named: "\<exists>r \<in> set (map enrich three_routes_rows). class_name r \<noteq> None"
    by (simp only: list_ex_iff)
  have pct: "map cd_percentage (class_distribution_df (map enrich three_routes_rows)) =
       [781796747813847 / 17592186044416, 781796747813847 / 35184372088832,
        2345390243441541 / 70368744177664]"
    by code_simp
  have len: "length (class_distribution_df (map enrich three_routes_rows)) = 3"
    using arg_cong [OF pct, of length] by simp
  have n: "int (length (filter (\<lambda>r. class_name r \<noteq> None) (map enrich three_routes_rows))) = 9"
    by code_simp
  note inst = class_distribution_of_named_classes [OF named]
  have counts: "(\<Sum>e \<leftarrow> class_distribution_df (map enrich three_routes_rows).
                  cd_booking_count e) = 9"
    using inst [THEN conjunct2, THEN conjunct1] unfolding n .
  have tol: "\<bar>(\<Sum>e \<leftarrow> class_distribution_df (map enrich three_routes_rows).
                  cd_percentage e) - 100\<bar> \<le> 3 * (1 / 200 + 1 / 10 ^ 12)"
    using inst [THEN conjunct2, THEN conjunct2, THEN conjunct2] unfolding len by simp
  from some_named pct counts tol show ?thesis by (intro conjI)
qed

section \<open>Popular routes: grouping and ranking\<close>














end
